theory Spec2Isabelle
  imports Complex_Main "HOL-Library.AList"
begin

section \<open>Python values shared by the modules\<close>

text \<open>
  The repository is a Python pipeline. Python strings are modelled as \<open>string\<close>;
  a non-ASCII code point is its UTF-8 byte sequence. Exceptions are values of
  \<open>py_error\<close>, and a function that may raise returns \<open>py_error + 'a\<close>.
  An Isabelle identifier cannot start with an underscore, so a private method
  \<^verbatim>\<open>_name\<close> of the source is the constant \<open>name\<close> here.
\<close>

datatype py_error = KeyError | ZeroDivisionError | ValueError

text \<open>\<^verbatim>\<open>str(n)\<close> and the format specification \<^verbatim>\<open>{n:02d}\<close> for a non-negative integer.\<close>

fun str_nat :: "nat \<Rightarrow> string" where
  "str_nat n =
     (if n < 10 then [''0123456789'' ! n]
      else str_nat (n div 10) @ [''0123456789'' ! (n mod 10)])"

declare str_nat.simps [simp del]

definition fmt_02d :: "nat \<Rightarrow> string" where
  "fmt_02d n = (let s = str_nat n in replicate (2 - length s) (CHR ''0'') @ s)"

text \<open>
  A \<^verbatim>\<open>datetime\<close> is represented by what the code observes of it: the result of
  \<^verbatim>\<open>isoformat()\<close>, of \<^verbatim>\<open>isocalendar()\<close> (ISO year, ISO week, weekday) and of
  \<^verbatim>\<open>strftime("%Y-%m-%d")\<close>. These are computed by the Python standard library.
\<close>

record datetime =
  isoformat :: string
  isocalendar :: "nat \<times> nat \<times> nat"
  strftime_ymd :: string

section \<open>core/models.py\<close>

text \<open>
  \<^verbatim>\<open>limit_items(items, limit)\<close>: \<^verbatim>\<open>list(items)\<close>, then \<^verbatim>\<open>materialised[:limit]\<close> unless the
  limit is \<^verbatim>\<open>None\<close>. A negative stop of a Python slice counts from the end.
\<close>

definition py_slice_to :: "'a list \<Rightarrow> int \<Rightarrow> 'a list" where
  "py_slice_to xs n =
     (if n < 0 then take (nat (int (length xs) + n)) xs else take (nat n) xs)"

definition limit_items :: "'a list \<Rightarrow> int option \<Rightarrow> 'a list" where
  "limit_items items limit =
     (let materialised = items in
      case limit of None \<Rightarrow> materialised | Some n \<Rightarrow> py_slice_to materialised n)"

section \<open>publisher/static\_site.py: batch identifier\<close>

text \<open>
  \<^verbatim>\<open>_get_batch_id\<close>: \<^verbatim>\<open>year, week, _ = now.isocalendar()\<close>, then
  \<^verbatim>\<open>f"{year}-W{week:02d}"\<close>. The current time is an argument.
\<close>

definition get_batch_id :: "datetime \<Rightarrow> string" where
  "get_batch_id now =
     (case isocalendar now of (year, week, _) \<Rightarrow> str_nat year @ ''-W'' @ fmt_02d week)"

section \<open>core/models.py: runtime data\<close>

text \<open>
  The dataclasses, with the fields that the modelled code reads. A Python \<^verbatim>\<open>float\<close> is
  modelled by a real number: IEEE rounding is outside the model. \<^verbatim>\<open>ScoredPaper.paper\<close>
  refers to the same object as \<^verbatim>\<open>PaperSummary.paper\<close> and is not repeated.
\<close>

record TopicConfig =
  topic_name :: string
  topic_label :: string

record PaperCandidate =
  arxiv_id :: string
  title :: string
  authors :: "string list"
  published :: "datetime option"
  arxiv_url :: string
  comment :: "string option"

record DimensionScore =
  dim_name :: string
  weight :: real
  dim_value :: real

record ScoredPaper =
  scores :: "DimensionScore list"
  total_score :: real

record TaskItem =
  question :: string
  reason :: string

record TaskFinding =
  task :: TaskItem
  answer :: string
  confidence :: real

record CoreSummary =
  problem :: string
  solution :: string
  methodology :: string
  experiments :: string
  conclusion :: string

record PaperSummary =
  paper :: PaperCandidate
  topic :: TopicConfig
  core_summary :: "CoreSummary option"
  task_list :: "TaskItem list"
  findings :: "TaskFinding list"
  overview :: string
  score_details :: ScoredPaper
  brief_summary :: string

record SiteConfig =
  output_dir :: string
  base_url :: string

section \<open>publisher/static\_site.py: persisted documents\<close>

text \<open>
  The two JSON documents. A JSON object is a record whose fields are optional: \<open>None\<close>
  is a key that is absent (or \<^verbatim>\<open>null\<close>), which is what \<^verbatim>\<open>dict.get\<close> and \<^verbatim>\<open>setdefault\<close>
  distinguish; a key that is present holds a value of the type the builder writes. A
  dictionary iterated by the code is an association list in insertion order, assigned by
  \<open>AList.update\<close> (an existing key keeps its place, a new key goes to the end). The list
  \<^verbatim>\<open>topics\<close> of a batch is built by \<^verbatim>\<open>list(set(...))\<close>, whose order Python leaves open, and
  is modelled by the set of its elements.
\<close>

record paper_json =
  pj_arxiv_id :: "string option"
  pj_title :: "string option"
  pj_authors :: "string list option"
  pj_published :: "string option"

record topic_json =
  tj_name :: "string option"
  tj_label :: "string option"

record score_json =
  sj_total_score :: "real option"

record paper_data =
  pd_paper :: "paper_json option"
  pd_topic :: "topic_json option"
  pd_score_details :: "score_json option"
  pd_batch_id :: "string option"
  pd_indexed_at :: "string option"

record papers_doc =
  doc_version :: "string option"
  doc_papers :: "(string \<times> paper_data) list option"

record batch =
  b_id :: "string option"
  b_generated :: "string option"
  b_paper_count :: "int option"
  b_topics :: "string set option"

record index_entry =
  ie_topic :: "string option"
  ie_batch :: "string option"
  ie_title :: "string option"
  ie_published :: "string option"
  ie_score :: "string option"

record statistics =
  total_papers :: "int option"
  total_batches :: "int option"

record manifest =
  m_version :: "string option"
  m_base_url :: "string option"
  m_last_updated :: "string option"
  m_statistics :: "statistics option"
  m_batches :: "batch list option"
  m_papers :: "(string \<times> index_entry) list option"
  m_generated :: "string option"
  m_topics :: "(string \<times> string list) list option"

text \<open>
  What opening and parsing a file can give: the path does not exist, \<^verbatim>\<open>open\<close> or
  \<^verbatim>\<open>read\<close> raises \<^verbatim>\<open>IOError\<close>, \<^verbatim>\<open>json.load\<close> raises \<^verbatim>\<open>JSONDecodeError\<close>, or a document.
\<close>

datatype 'a json_file = Missing | IOError | JSONDecodeError | Parsed 'a

text \<open>
  The state a build works on: the two attributes of the builder object, the two files
  under the output directory, and the lines printed so far.
\<close>

record state =
  existing_papers :: "(string \<times> paper_data) list"
  existing_manifest :: manifest
  manifest_file :: "manifest json_file"
  papers_file :: "papers_doc json_file"
  stdout :: "string list"

text \<open>
  The process environment of one build: the clock (the model reads \<^verbatim>\<open>datetime.utcnow()\<close>
  once per build) and the variable \<^verbatim>\<open>PIPELINE_RUN_AT\<close>.
\<close>

record environ =
  utcnow :: datetime
  PIPELINE_RUN_AT :: "string option"

section \<open>publisher/static\_site.py: score\<close>

text \<open>
  \<^verbatim>\<open>_format_score\<close>. \<^verbatim>\<open>sum(...) or 1.0\<close> takes \<open>1.0\<close> when the sum is zero; the division
  raises \<^verbatim>\<open>ZeroDivisionError\<close> on a zero divisor. The format \<^verbatim>\<open>{x:.1f}\<close> is the argument
  \<open>fmt1\<close>.
\<close>

definition py_truediv :: "real \<Rightarrow> real \<Rightarrow> py_error + real" where
  "py_truediv a b = (if b = 0 then Inl ZeroDivisionError else Inr (a / b))"

definition format_score :: "(real \<Rightarrow> string) \<Rightarrow> ScoredPaper \<Rightarrow> py_error + string" where
  "format_score fmt1 scored_paper =
     (let s = sum_list (map weight (scores scored_paper));
          total_weight = (if s = 0 then 1.0 else s);
          value = sum_list (map (\<lambda>score. weight score * dim_value score) (scores scored_paper))
      in case py_truediv value total_weight of
           Inl e \<Rightarrow> Inl e
         | Inr q \<Rightarrow> Inr (fmt1 (q * 100)))"

section \<open>publisher/static\_site.py: loading\<close>

definition create_empty_manifest :: "SiteConfig \<Rightarrow> manifest" where
  "create_empty_manifest site_config =
     \<lparr>m_version = Some ''2.0'',
      m_base_url = Some (base_url site_config),
      m_last_updated = None,
      m_statistics = Some \<lparr>total_papers = Some 0, total_batches = Some 0\<rparr>,
      m_batches = Some [],
      m_papers = Some [],
      m_generated = None,
      m_topics = None\<rparr>"

text \<open>
  \<^verbatim>\<open>_load_existing_data\<close>: each document is read if its file exists; \<^verbatim>\<open>JSONDecodeError\<close>
  and \<^verbatim>\<open>IOError\<close> are caught and give the default. Nothing is printed.
\<close>

definition load_existing_data :: "SiteConfig \<Rightarrow> state \<Rightarrow> state" where
  "load_existing_data site_config self =
     (let self = self\<lparr>existing_manifest :=
            (case manifest_file self of
               Missing \<Rightarrow> create_empty_manifest site_config
             | Parsed m \<Rightarrow> m
             | JSONDecodeError \<Rightarrow> create_empty_manifest site_config
             | IOError \<Rightarrow> create_empty_manifest site_config)\<rparr>
      in self\<lparr>existing_papers :=
            (case papers_file self of
               Missing \<Rightarrow> []
             | Parsed data \<Rightarrow> (case doc_papers data of None \<Rightarrow> [] | Some ps \<Rightarrow> ps)
             | JSONDecodeError \<Rightarrow> []
             | IOError \<Rightarrow> [])\<rparr>)"

section \<open>publisher/static\_site.py: merging\<close>

definition candidate_to_dict :: "PaperCandidate \<Rightarrow> paper_json" where
  "candidate_to_dict p =
     \<lparr>pj_arxiv_id = Some (arxiv_id p),
      pj_title = Some (title p),
      pj_authors = Some (authors p),
      pj_published = (case published p of None \<Rightarrow> None | Some d \<Rightarrow> Some (isoformat d))\<rparr>"

definition summary_to_dict :: "PaperSummary \<Rightarrow> paper_data" where
  "summary_to_dict s =
     \<lparr>pd_paper = Some (candidate_to_dict (paper s)),
      pd_topic = Some \<lparr>tj_name = Some (topic_name (topic s)), tj_label = Some (topic_label (topic s))\<rparr>,
      pd_score_details = Some \<lparr>sj_total_score = Some (total_score (score_details s))\<rparr>,
      pd_batch_id = None,
      pd_indexed_at = None\<rparr>"

text \<open>\<^verbatim>\<open>groups[key].append(item)\<close> on a \<^verbatim>\<open>defaultdict(list)\<close>.\<close>

definition group_append :: "'k \<Rightarrow> 'v \<Rightarrow> ('k \<times> 'v list) list \<Rightarrow> ('k \<times> 'v list) list" where
  "group_append k v groups =
     (case map_of groups k of
        None \<Rightarrow> AList.update k [v] groups
      | Some vs \<Rightarrow> AList.update k (vs @ [v]) groups)"

text \<open>
  The loop of \<^verbatim>\<open>build\<close> over the incoming summaries (step 3). Its variables are the
  builder, \<^verbatim>\<open>new_papers\<close> and \<^verbatim>\<open>topic_groups\<close>.
\<close>

type_synonym merge_vars = "state \<times> PaperSummary list \<times> (string \<times> PaperSummary list) list"

fun process_summaries ::
  "(real \<Rightarrow> string) \<Rightarrow> datetime \<Rightarrow> string \<Rightarrow> PaperSummary list \<Rightarrow> merge_vars \<Rightarrow> py_error + merge_vars"
where
  "process_summaries fmt1 now batch_id [] vars = Inr vars"
| "process_summaries fmt1 now batch_id (summary # rest) (self, new_papers, topic_groups) =
     (let aid = arxiv_id (paper summary) in
      if aid \<in> set (map fst (existing_papers self)) then
        process_summaries fmt1 now batch_id rest
          (self\<lparr>stdout := stdout self @ [''[INFO] Paper '' @ aid @ '' already exists, skipping...'']\<rparr>,
           new_papers, topic_groups)
      else
        (let new_papers = new_papers @ [summary];
             topic_groups = group_append (topic_name (topic summary)) summary topic_groups;
             paper_data = (summary_to_dict summary)
                \<lparr>pd_batch_id := Some batch_id, pd_indexed_at := Some (isoformat now)\<rparr>;
             self = self\<lparr>existing_papers := AList.update aid paper_data (existing_papers self)\<rparr>
         in case format_score fmt1 (score_details summary) of
              Inl e \<Rightarrow> Inl e
            | Inr score \<Rightarrow>
                (let entry = \<lparr>ie_topic = Some (topic_name (topic summary)),
                              ie_batch = Some batch_id,
                              ie_title = Some (title (paper summary)),
                              ie_published =
                                Some (case published (paper summary) of
                                        None \<Rightarrow> [] | Some d \<Rightarrow> strftime_ymd d),
                              ie_score = Some score\<rparr>;
                     index = (case m_papers (existing_manifest self) of
                                None \<Rightarrow> [] | Some ix \<Rightarrow> ix);
                     self = self\<lparr>existing_manifest :=
                              (existing_manifest self)\<lparr>m_papers := Some (AList.update aid entry index)\<rparr>\<rparr>
                 in process_summaries fmt1 now batch_id rest (self, new_papers, topic_groups))))"

section \<open>publisher/static\_site.py: batch bookkeeping and saving\<close>

text \<open>
  \<^verbatim>\<open>next((b for b in batches if b["id"] == batch_id), None)\<close>: the position of the first
  batch with that id. The generator reads \<^verbatim>\<open>b["id"]\<close> of every batch up to the match and
  raises \<^verbatim>\<open>KeyError\<close> on a batch without the key.
\<close>

fun find_batch :: "string \<Rightarrow> batch list \<Rightarrow> py_error + nat option" where
  "find_batch batch_id [] = Inr None"
| "find_batch batch_id (b # bs) =
     (case b_id b of
        None \<Rightarrow> Inl KeyError
      | Some i \<Rightarrow>
          if i = batch_id then Inr (Some 0)
          else (case find_batch batch_id bs of
                  Inl e \<Rightarrow> Inl e
                | Inr None \<Rightarrow> Inr None
                | Inr (Some k) \<Rightarrow> Inr (Some (Suc k))))"

text \<open>
  \<^verbatim>\<open>_update_batch_info\<close>. A batch that is found has the key \<^verbatim>\<open>id\<close>, so it is a non-empty
  dictionary and \<^verbatim>\<open>if existing_batch\<close> holds; \<^verbatim>\<open>existing_batch["paper_count"] += ...\<close>
  raises \<^verbatim>\<open>KeyError\<close> when the key is absent.
\<close>

definition update_batch_info :: "datetime \<Rightarrow> string \<Rightarrow> PaperSummary list \<Rightarrow> state \<Rightarrow> py_error + state" where
  "update_batch_info now batch_id papers self =
     (let topics = set (map (\<lambda>p. topic_name (topic p)) papers);
          m = existing_manifest self;
          bs = (case m_batches m of None \<Rightarrow> [] | Some bs \<Rightarrow> bs)
      in case find_batch batch_id bs of
           Inl e \<Rightarrow> Inl e
         | Inr found \<Rightarrow>
             (case (case found of
                      Some k \<Rightarrow>
                        (let existing_batch = bs ! k in
                         case b_paper_count existing_batch of
                           None \<Rightarrow> Inl KeyError
                         | Some c \<Rightarrow>
                             Inr (m\<lparr>m_batches := Some (bs[k := existing_batch
                                    \<lparr>b_paper_count := Some (c + int (length papers)),
                                     b_topics := Some ((case b_topics existing_batch of
                                                          None \<Rightarrow> {} | Some ts \<Rightarrow> ts) \<union> topics)\<rparr>])\<rparr>))
                    | None \<Rightarrow>
                        Inr (m\<lparr>m_batches := Some (\<lparr>b_id = Some batch_id,
                                                     b_generated = Some (isoformat now),
                                                     b_paper_count = Some (int (length papers)),
                                                     b_topics = Some topics\<rparr> # bs)\<rparr>)) of
                Inl e \<Rightarrow> Inl e
              | Inr m \<Rightarrow>
                  (let stats = (case m_statistics m of
                                  None \<Rightarrow> \<lparr>total_papers = None, total_batches = None\<rparr>
                                | Some st \<Rightarrow> st);
                       stats = stats\<lparr>total_papers := Some (int (length (existing_papers self)))\<rparr>;
                       stats = stats\<lparr>total_batches :=
                                 Some (int (length (case m_batches m of None \<Rightarrow> [] | Some bs \<Rightarrow> bs)))\<rparr>
                   in Inr (self\<lparr>existing_manifest :=
                             m\<lparr>m_statistics := Some stats,
                               m_last_updated := Some (isoformat now)\<rparr>\<rparr>))))"

text \<open>
  \<^verbatim>\<open>_save_manifest\<close> and \<^verbatim>\<open>_save_paper_data\<close>. \<^verbatim>\<open>json.dumps\<close> followed by a later
  \<^verbatim>\<open>json.load\<close> gives the document back, so a written file holds the document itself.
\<close>

fun topics_mapping :: "(string \<times> index_entry) list \<Rightarrow> (string \<times> string list) list \<Rightarrow> (string \<times> string list) list" where
  "topics_mapping [] acc = acc"
| "topics_mapping ((aid, info) # rest) acc =
     topics_mapping rest
       (group_append (case ie_topic info of None \<Rightarrow> ''unknown'' | Some t \<Rightarrow> t) aid acc)"

definition save_manifest :: "SiteConfig \<Rightarrow> environ \<Rightarrow> state \<Rightarrow> state" where
  "save_manifest site_config env self =
     (let m = existing_manifest self;
          m = m\<lparr>m_base_url := Some (base_url site_config)\<rparr>;
          m = m\<lparr>m_generated :=
                 Some (case PIPELINE_RUN_AT env of
                         None \<Rightarrow> isoformat (utcnow env)
                       | Some v \<Rightarrow> if v = [] then isoformat (utcnow env) else v)\<rparr>;
          m = m\<lparr>m_topics :=
                 Some (topics_mapping (case m_papers m of None \<Rightarrow> [] | Some ix \<Rightarrow> ix) [])\<rparr>
      in self\<lparr>existing_manifest := m, manifest_file := Parsed m\<rparr>)"

definition save_paper_data :: "state \<Rightarrow> state" where
  "save_paper_data self =
     self\<lparr>papers_file := Parsed \<lparr>doc_version = Some ''1.0'', doc_papers = Some (existing_papers self)\<rparr>\<rparr>"

section \<open>publisher/static\_site.py: build\<close>

text \<open>
  \<^verbatim>\<open>build\<close>, steps 1, 3, 5 and 7, in the order of the source. Steps 2, 4 and 6 and
  \<^verbatim>\<open>_render_batch_archive\<close> create directories and write HTML pages and \<^verbatim>\<open>batch.json\<close>;
  they read the builder's attributes and change neither them nor the two documents.
\<close>

definition build :: "(real \<Rightarrow> string) \<Rightarrow> SiteConfig \<Rightarrow> environ \<Rightarrow> PaperSummary list \<Rightarrow> state \<Rightarrow> py_error + state" where
  "build fmt1 site_config env summaries self =
     (let self = load_existing_data site_config self;
          now = utcnow env;
          batch_id = get_batch_id now
      in case process_summaries fmt1 now batch_id summaries (self, [], []) of
           Inl e \<Rightarrow> Inl e
         | Inr (self, new_papers, topic_groups) \<Rightarrow>
             (case (if new_papers \<noteq> [] then
                      (case update_batch_info now batch_id new_papers self of
                         Inl e \<Rightarrow> Inl e
                       | Inr self \<Rightarrow>
                           Inr (self\<lparr>stdout := stdout self @
                                  [''[INFO] Added '' @ str_nat (length new_papers) @
                                   '' new papers to batch '' @ batch_id]\<rparr>))
                    else Inr (self\<lparr>stdout := stdout self @ [''[INFO] No new papers to add'']\<rparr>)) of
                Inl e \<Rightarrow> Inl e
              | Inr self \<Rightarrow> Inr (save_paper_data (save_manifest site_config env self))))"

section \<open>Python string methods\<close>

text \<open>
  The methods of \<^verbatim>\<open>str\<close> that the code calls. White space is the white space of the ASCII
  range (tab to carriage return, the four separators \<open>0x1C\<close> to \<open>0x1F\<close>, and the space).
\<close>

definition is_space :: "char \<Rightarrow> bool" where
  "is_space c = (of_char c \<in> {9, 10, 11, 12, 13, 28, 29, 30, 31, 32 :: nat})"

text \<open>\<^verbatim>\<open>s.split(c)\<close> for a separator of one character: every occurrence splits.\<close>

fun split_on :: "(char \<Rightarrow> bool) \<Rightarrow> string \<Rightarrow> string list" where
  "split_on P [] = [[]]"
| "split_on P (c # cs) =
     (if P c then [] # split_on P cs
      else (case split_on P cs of [] \<Rightarrow> [[c]] | w # ws \<Rightarrow> (c # w) # ws))"

definition split_char :: "char \<Rightarrow> string \<Rightarrow> string list" where
  "split_char sep s = split_on (\<lambda>c. c = sep) s"

text \<open>\<^verbatim>\<open>s.split()\<close>: the maximal runs of characters that are not white space.\<close>

definition split_ws :: "string \<Rightarrow> string list" where
  "split_ws s = filter (\<lambda>w. w \<noteq> []) (split_on is_space s)"

text \<open>\<^verbatim>\<open>sep.join(xs)\<close>.\<close>

fun join :: "string \<Rightarrow> string list \<Rightarrow> string" where
  "join sep [] = []"
| "join sep [x] = x"
| "join sep (x # y # ys) = x @ sep @ join sep (y # ys)"

definition strip :: "string \<Rightarrow> string" where
  "strip s = rev (dropWhile is_space (rev (dropWhile is_space s)))"

definition startswith :: "string \<Rightarrow> string \<Rightarrow> bool" where
  "startswith s p = (take (length p) s = p)"

text \<open>\<^verbatim>\<open>sub in s\<close>.\<close>

fun contains :: "string \<Rightarrow> string \<Rightarrow> bool" where
  "contains [] sub = (sub = [])"
| "contains (c # cs) sub = (startswith (c # cs) sub \<or> contains cs sub)"

section \<open>publisher/github\_committer.py\<close>

record PaperMetadata =
  pm_title :: string
  published_date :: string
  venue :: string
  pm_arxiv_id :: string
  pm_arxiv_url :: string

definition to_markdown_row :: "PaperMetadata \<Rightarrow> string" where
  "to_markdown_row self =
     (let cleaned_title = join '' '' (split_ws (pm_title self));
          cleaned_venue = join '' '' (split_ws (venue self));
          title_with_link =
            (if pm_arxiv_url self \<noteq> [] then ''['' @ cleaned_title @ '']('' @ pm_arxiv_url self @ '')''
             else cleaned_title)
      in ''| '' @ title_with_link @ '' | '' @ published_date self @ '' | '' @ cleaned_venue @ '' |'')"

definition table_header :: string where
  "table_header = ''| Title | Published Date | Venue/Conference |'' @ [CHR 0x0A] @ ''| --- | --- | --- |''"

text \<open>
  The body of the first loop of \<^verbatim>\<open>_build_markdown_table\<close>: the title that a line of
  the existing content adds to \<^verbatim>\<open>existing_titles\<close>, if it adds one.
\<close>

definition line_title :: "string \<Rightarrow> string option" where
  "line_title line =
     (if startswith line ''| ['' \<or>
         (startswith line ''| '' \<and> \<not> startswith line ''| Title'' \<and> \<not> startswith line ''| ---'')
      then (let parts = split_char (CHR ''|'') line in
            if 2 \<le> length parts then
              (let title_part = strip (parts ! 1) in
               if startswith title_part ''[''
               then (case split_char (CHR '']'') title_part of
                       [] \<Rightarrow> None | first # _ \<Rightarrow> Some (drop 1 first))
               else Some title_part)
            else None)
      else None)"

definition existing_titles :: "string \<Rightarrow> string set" where
  "existing_titles existing_content =
     (if existing_content \<noteq> []
      then set (List.map_filter line_title (split_char (CHR 0x0A) existing_content))
      else {})"

text \<open>
  The second loop with its fallback: the new rows go after the first line that starts
  with \<^verbatim>\<open>| ---\<close>, or to the end when there is no such line.
\<close>

fun insert_rows :: "string list \<Rightarrow> bool \<Rightarrow> string list \<Rightarrow> string list" where
  "insert_rows new_rows inserted [] = (if inserted then [] else new_rows)"
| "insert_rows new_rows inserted (line # rest) =
     (if \<not> inserted \<and> startswith line ''| ---'' \<and> contains line ''---''
      then line # new_rows @ insert_rows new_rows True rest
      else line # insert_rows new_rows inserted rest)"

text \<open>
  \<^verbatim>\<open>_build_markdown_table\<close>. The argument \<open>timestamp\<close> is
  \<^verbatim>\<open>datetime.utcnow().strftime("%Y-%m-%d %H:%M UTC")\<close>. The lines printed are left out.
\<close>

definition build_markdown_table :: "string \<Rightarrow> PaperMetadata list \<Rightarrow> string \<Rightarrow> string" where
  "build_markdown_table timestamp papers existing_content =
     (let titles = existing_titles existing_content;
          new_rows = map to_markdown_row (filter (\<lambda>paper. pm_title paper \<notin> titles) papers)
      in if new_rows = [] then existing_content
         else if contains existing_content table_header \<or> contains existing_content ''| Title |''
         then join [CHR 0x0A] (insert_rows new_rows False (split_char (CHR 0x0A) existing_content))
         else
           (let content_lines =
                  [''# Paper Updates'', [], ''*Last updated: '' @ timestamp @ ''*'', [], table_header] @ new_rows;
                content_lines =
                  (if existing_content \<noteq> []
                   then content_lines @ [[], ''---'', [], existing_content]
                   else content_lines)
            in join [CHR 0x0A] content_lines))"

text \<open>
  \<^verbatim>\<open>commit_papers\<close> on the state of the repository: whether the repository and the
  branch can be reached (\<^verbatim>\<open>_get_or_create_branch\<close> raises \<^verbatim>\<open>ValueError\<close> otherwise), the
  content of the file on the branch if the file exists, and whether
  \<^verbatim>\<open>update_file\<close> and \<^verbatim>\<open>create_file\<close> succeed. The result is the returned flag and the
  repository afterwards.
\<close>

record github =
  reachable :: bool
  file_on_branch :: "string option"
  writable :: bool

definition commit_papers :: "string \<Rightarrow> PaperMetadata list \<Rightarrow> github \<Rightarrow> py_error + bool \<times> github" where
  "commit_papers timestamp papers repo =
     (if papers = [] then Inr (True, repo)
      else if \<not> reachable repo then Inl ValueError
      else
        (let existing_content = (case file_on_branch repo of None \<Rightarrow> [] | Some c \<Rightarrow> c);
             new_content = build_markdown_table timestamp papers existing_content
         in if new_content = existing_content then Inr (True, repo)
            else if writable repo then Inr (True, repo\<lparr>file_on_branch := Some new_content\<rparr>)
            else Inr (False, repo)))"

section \<open>publisher/static\_site.py: rendering helpers\<close>











section \<open>publisher/static\_site.py: the paper page\<close>


section \<open>publisher/static\_site.py: the index page\<close>




section \<open>Vocabulary of the properties\<close>

text \<open>
  The summaries of a run that are not skipped, given the identifiers already stored:
  the first occurrence of every identifier that is not yet a key.
\<close>

fun accepted :: "string list \<Rightarrow> PaperSummary list \<Rightarrow> PaperSummary list" where
  "accepted keys [] = []"
| "accepted keys (s # rest) =
     (if arxiv_id (paper s) \<in> set keys then accepted keys rest
      else s # accepted (keys @ [arxiv_id (paper s)]) rest)"

text \<open>The store entry of an accepted summary.\<close>

definition stamp :: "datetime \<Rightarrow> string \<Rightarrow> PaperSummary \<Rightarrow> string \<times> paper_data" where
  "stamp now batch_id s =
     (arxiv_id (paper s),
      (summary_to_dict s)\<lparr>pd_batch_id := Some batch_id, pd_indexed_at := Some (isoformat now)\<rparr>)"

text \<open>A list of summaries without repeated identifiers: the first of each is kept.\<close>

fun dedup_ids :: "PaperSummary list \<Rightarrow> PaperSummary list" where
  "dedup_ids [] = []"
| "dedup_ids (s # rest) =
     s # dedup_ids (filter (\<lambda>t. arxiv_id (paper t) \<noteq> arxiv_id (paper s)) rest)"

definition batches_of :: "manifest \<Rightarrow> batch list" where
  "batches_of m = (case m_batches m of None \<Rightarrow> [] | Some bs \<Rightarrow> bs)"

definition topics_of :: "batch \<Rightarrow> string set" where
  "topics_of b = (case b_topics b of None \<Rightarrow> {} | Some ts \<Rightarrow> ts)"

definition has_id :: "string \<Rightarrow> batch \<Rightarrow> bool" where
  "has_id batch_id b = (b_id b = Some batch_id)"

text \<open>
  The manifest and the store as a build finds them in the output directory (the
  documents of the files, or the defaults).
\<close>

definition loaded_manifest :: "SiteConfig \<Rightarrow> state \<Rightarrow> manifest" where
  "loaded_manifest site_config st = existing_manifest (load_existing_data site_config st)"

definition loaded_store :: "SiteConfig \<Rightarrow> state \<Rightarrow> (string \<times> paper_data) list" where
  "loaded_store site_config st = existing_papers (load_existing_data site_config st)"

definition accepted_by :: "SiteConfig \<Rightarrow> state \<Rightarrow> PaperSummary list \<Rightarrow> PaperSummary list" where
  "accepted_by site_config st summaries = accepted (map fst (loaded_store site_config st)) summaries"

text \<open>The statistics of a manifest agree with a store and with the manifest's batch list.\<close>

definition stats_consistent :: "manifest \<Rightarrow> (string \<times> paper_data) list \<Rightarrow> bool" where
  "stats_consistent m store =
     (case m_statistics m of
        None \<Rightarrow> False
      | Some stats \<Rightarrow>
          total_papers stats = Some (int (length store)) \<and>
          total_batches stats = Some (int (length (batches_of m))))"



text \<open>
  The characters that delimit tags and attribute values, and the sequence of these
  characters in a text.
\<close>

definition is_markup :: "char \<Rightarrow> bool" where
  "is_markup c = (c = CHR ''<'' \<or> c = CHR ''>'' \<or> c = CHR 0x22 \<or> c = CHR 0x27)"

definition markup_of :: "string \<Rightarrow> string" where
  "markup_of s = filter is_markup s"



section \<open>Example inputs\<close>

text \<open>
  Concrete inputs on which the properties are evaluated. The format \<^verbatim>\<open>{x:.1f}\<close> is
  instantiated by \<open>fmt_1f\<close>: the decimal rendering of a number with one digit after the
  point, rounded half to even.
\<close>

definition round_half_even :: "real \<Rightarrow> int" where
  "round_half_even x =
     (let f = \<lfloor>x\<rfloor>; d = x - of_int f
      in if d < 1 / 2 then f else if 1 / 2 < d then f + 1 else if even f then f else f + 1)"

definition fmt_1f :: "real \<Rightarrow> string" where
  "fmt_1f x =
     (let n = nat (round_half_even (\<bar>x\<bar> * 10))
      in (if x < 0 then ''-'' else []) @ str_nat (n div 10) @ ''.'' @ str_nat (n mod 10))"



definition example_cfg :: SiteConfig where
  "example_cfg = \<lparr>output_dir = ''site'', base_url = ''https://example.org''\<rparr>"

definition example_now :: datetime where
  "example_now = \<lparr>isoformat = ''2024-09-10T08:00:00'', isocalendar = (2024, 37, 2),
                   strftime_ymd = ''2024-09-10''\<rparr>"

definition example_later :: datetime where
  "example_later = \<lparr>isoformat = ''2024-09-12T17:30:00'', isocalendar = (2024, 37, 4),
                     strftime_ymd = ''2024-09-12''\<rparr>"

definition example_env :: environ where
  "example_env = \<lparr>utcnow = example_now, PIPELINE_RUN_AT = None\<rparr>"

definition example_env_later :: environ where
  "example_env_later = \<lparr>utcnow = example_later, PIPELINE_RUN_AT = Some ''2024-09-12T17:29:58''\<rparr>"

definition example_summary :: "string \<Rightarrow> string \<Rightarrow> PaperSummary" where
  "example_summary aid tname =
     \<lparr>paper = \<lparr>arxiv_id = aid, title = ''A study'', authors = [''A. Author''], published = None,
                arxiv_url = ''https://arxiv.org/abs/'' @ aid, comment = None\<rparr>,
      topic = \<lparr>topic_name = tname, topic_label = tname\<rparr>,
      core_summary = None, task_list = [], findings = [], overview = [],
      score_details = \<lparr>scores = [], total_score = 0\<rparr>,
      brief_summary = []\<rparr>"

text \<open>An output directory without the two documents.\<close>

definition empty_site :: state where
  "empty_site = \<lparr>existing_papers = [], existing_manifest = create_empty_manifest example_cfg,
                  manifest_file = Missing, papers_file = Missing, stdout = []\<rparr>"

text \<open>Two builds in the same ISO week, the second with one summary seen before.\<close>

definition first_run :: "PaperSummary list" where
  "first_run = [example_summary ''2401.00001'' ''nlp'', example_summary ''2401.00002'' ''nlp'']"

definition second_run :: "PaperSummary list" where
  "second_run = [example_summary ''2401.00001'' ''nlp'', example_summary ''2401.00003'' ''cv'']"

definition site_after_first :: state where
  "site_after_first = projr (build fmt_1f example_cfg example_env first_run empty_site)"

definition site_after_second :: state where
  "site_after_second = projr (build fmt_1f example_cfg example_env_later second_run site_after_first)"

definition site_after_both :: state where
  "site_after_both =
     projr (build fmt_1f example_cfg example_env (dedup_ids (first_run @ second_run)) empty_site)"

text \<open>An output directory whose manifest is gone while the store holds one paper.\<close>

definition orphan_store :: state where
  "orphan_store =
     \<lparr>existing_papers = [], existing_manifest = create_empty_manifest example_cfg,
      manifest_file = Missing,
      papers_file = Parsed \<lparr>doc_version = Some ''1.0'',
                             doc_papers = Some [stamp example_now ''2024-W37''
                                                  (example_summary ''2401.00001'' ''nlp'')]\<rparr>,
      stdout = []\<rparr>"

text \<open>The same store beside a manifest that does not parse.\<close>

definition corrupt_manifest :: state where
  "corrupt_manifest = orphan_store\<lparr>manifest_file := JSONDecodeError\<rparr>"


text \<open>
  The row of the candidate that \<^verbatim>\<open>_build_offline_demo_candidate\<close> of the pipeline makes
  for a topic with the label \<open>NLP\<close>, and a repository that can be written.
\<close>

definition demo_paper :: PaperMetadata where
  "demo_paper = \<lparr>pm_title = ''[Demo] NLP Automated Test Example'', published_date = ''2024-09-10'',
                  venue = ''arXiv'', pm_arxiv_id = ''demo-nlp-080000'',
                  pm_arxiv_url = ''https://arxiv.org/abs/0000.00000''\<rparr>"

definition demo_row :: string where
  "demo_row =
     ''| [[Demo] NLP Automated Test Example](https://arxiv.org/abs/0000.00000) | 2024-09-10 | arXiv |''"

definition demo_table :: string where
  "demo_table =
     join [CHR 0x0A]
       [''# Paper Updates'', [], ''*Last updated: 2024-09-10 08:00 UTC*'', [],
        ''| Title | Published Date | Venue/Conference |'', ''| --- | --- | --- |'', demo_row]"

definition demo_repo :: github where
  "demo_repo = \<lparr>reachable = True, file_on_branch = Some demo_table, writable = True\<rparr>"

section \<open>Properties\<close>

subsection \<open>Decimal rendering\<close>

lemma str_nat_digit: "n < 10 \<Longrightarrow> str_nat n = [''0123456789'' ! n]"
  by (simp add: str_nat.simps)

lemma str_nat_two_digits:
  assumes "10 \<le> n" "n < 100"
  shows "str_nat n = [''0123456789'' ! (n div 10), ''0123456789'' ! (n mod 10)]"
proof -
  have "n div 10 < 10" using assms by simp
  then have "str_nat (n div 10) = [''0123456789'' ! (n div 10)]"
    by (rule str_nat_digit)
  moreover have "\<not> n < 10" using assms by simp
  ultimately show ?thesis
    by (subst str_nat.simps) simp
qed

lemma fmt_02d_two_digits:
  assumes "n < 100"
  shows "fmt_02d n = [''0123456789'' ! (n div 10), ''0123456789'' ! (n mod 10)]"
proof (cases "n < 10")
  case True
  then show ?thesis by (simp add: fmt_02d_def str_nat_digit)
next
  case False
  then have "10 \<le> n" by simp
  from str_nat_two_digits [OF this assms] show ?thesis
    by (simp add: fmt_02d_def)
qed

subsection \<open>limit\_items\<close>

text \<open>
  C9. \<open>limit_items items None\<close> is the whole list in order; for a non-negative limit
  \<open>n\<close> it is exactly the first \<open>min n (length items)\<close> items in order, so its length
  never exceeds \<open>n\<close>.
\<close>

theorem limit_items_prefix:
  "limit_items items None = items \<and>
   (0 \<le> n \<longrightarrow>
      limit_items items (Some n) = take (min (nat n) (length items)) items \<and>
      length (limit_items items (Some n)) = min (nat n) (length items) \<and>
      int (length (limit_items items (Some n))) \<le> n)"
  by (auto simp: limit_items_def py_slice_to_def min_def)

theorem limit_items_prefix_witness:
  "limit_items [10, 20, 30 :: int] None = [10, 20, 30] \<and>
   (0::int) \<le> 2 \<and>
   limit_items [10, 20, 30 :: int] (Some 2) = [10, 20] \<and>
   limit_items [10, 20, 30 :: int] (Some 5) = [10, 20, 30]"
  using limit_items_prefix [of "[10, 20, 30 :: int]" 2]
    limit_items_prefix [of "[10, 20, 30 :: int]" 5]
  by simp

subsection \<open>Batch identifier\<close>

text \<open>
  C8. The batch id is the ISO year of the current time in decimal, then \<open>-W\<close>, then
  the ISO week number written with exactly two decimal digits (zero-padded), for
  every ISO week number (1 to 53); for instance \<open>2024-W37\<close>.
\<close>

theorem get_batch_id_format:
  assumes "isocalendar now = (year, week, weekday)" and "1 \<le> week" and "week \<le> 53"
  shows "get_batch_id now =
           str_nat year @ ''-W'' @ [''0123456789'' ! (week div 10), ''0123456789'' ! (week mod 10)]"
proof -
  have "week < 100" using assms(3) by simp
  then show ?thesis
    using assms(1) by (simp add: get_batch_id_def fmt_02d_two_digits)
qed

theorem get_batch_id_format_witness:
  "get_batch_id \<lparr>isoformat = ''2024-09-10T08:00:00'', isocalendar = (2024, 37, 2),
                  strftime_ymd = ''2024-09-10''\<rparr> = ''2024-W37'' \<and>
   get_batch_id \<lparr>isoformat = ''2025-01-01T00:00:00'', isocalendar = (2025, 1, 3),
                  strftime_ymd = ''2025-01-01''\<rparr> = ''2025-W01''"
proof -
  have y1: "str_nat 2024 = ''2024''" by code_simp
  have y2: "str_nat 2025 = ''2025''" by code_simp
  show ?thesis
    using get_batch_id_format [of "\<lparr>isoformat = ''2024-09-10T08:00:00'', isocalendar = (2024, 37, 2),
                  strftime_ymd = ''2024-09-10''\<rparr>" 2024 37 2]
      get_batch_id_format [of "\<lparr>isoformat = ''2025-01-01T00:00:00'', isocalendar = (2025, 1, 3),
                  strftime_ymd = ''2025-01-01''\<rparr>" 2025 1 3]
    by (simp add: y1 y2)
qed

subsection \<open>The merge loop\<close>

lemma format_score_Inr:
  "format_score fmt1 sp =
     Inr (fmt1 (sum_list (map (\<lambda>s. weight s * dim_value s) (scores sp)) /
                (if sum_list (map weight (scores sp)) = 0 then 1 else sum_list (map weight (scores sp))) * 100))"
  by (simp add: format_score_def py_truediv_def Let_def)

lemma update_absent: "k \<notin> set (map fst xs) \<Longrightarrow> AList.update k v xs = xs @ [(k, v)]"
  by (induction xs) auto

lemma process_summaries_result:
  "\<exists>self' tg'.
     process_summaries fmt1 now bid S (self, np, tg) =
       Inr (self', np @ accepted (map fst (existing_papers self)) S, tg') \<and>
     existing_papers self' =
       existing_papers self @ map (stamp now bid) (accepted (map fst (existing_papers self)) S) \<and>
     m_batches (existing_manifest self') = m_batches (existing_manifest self) \<and>
     m_statistics (existing_manifest self') = m_statistics (existing_manifest self) \<and>
     m_last_updated (existing_manifest self') = m_last_updated (existing_manifest self) \<and>
     manifest_file self' = manifest_file self \<and>
     papers_file self' = papers_file self \<and>
     (accepted (map fst (existing_papers self)) S = [] \<longrightarrow>
        existing_manifest self' = existing_manifest self)"
proof (induction S arbitrary: self np tg)
  case Nil
  then show ?case by simp
next
  case (Cons s S)
  show ?case
  proof (cases "arxiv_id (paper s) \<in> set (map fst (existing_papers self))")
    case True
    from Cons.IH [of "self\<lparr>stdout := stdout self @ [''[INFO] Paper '' @ arxiv_id (paper s) @ '' already exists, skipping...'']\<rparr>" np tg]
    show ?thesis using True by (simp add: Let_def)
  next
    case False
    define e where "e = \<lparr>ie_topic = Some (topic_name (topic s)), ie_batch = Some bid,
               ie_title = Some (title (paper s)),
               ie_published = Some (case published (paper s) of None \<Rightarrow> [] | Some d \<Rightarrow> strftime_ymd d),
               ie_score = Some (fmt1 (sum_list (map (\<lambda>s. weight s * dim_value s) (scores (score_details s))) /
                (if sum_list (map weight (scores (score_details s))) = 0 then 1 else sum_list (map weight (scores (score_details s)))) * 100))\<rparr>"
    define self2 where "self2 = self\<lparr>existing_papers := existing_papers self @ [stamp now bid s],
         existing_manifest := (existing_manifest self)\<lparr>m_papers :=
         Some (AList.update (arxiv_id (paper s)) e (case m_papers (existing_manifest self) of None \<Rightarrow> [] | Some ix \<Rightarrow> ix))\<rparr>\<rparr>"
    have step: "process_summaries fmt1 now bid (s # S) (self, np, tg) =
       process_summaries fmt1 now bid S (self2, np @ [s], group_append (topic_name (topic s)) s tg)"
      using False by (simp add: Let_def format_score_Inr update_absent stamp_def self2_def e_def)
    have keys2: "map fst (existing_papers self2) = map fst (existing_papers self) @ [arxiv_id (paper s)]"
      by (simp add: self2_def stamp_def)
    have acc: "accepted (map fst (existing_papers self)) (s # S) =
         s # accepted (map fst (existing_papers self2)) S"
      using False by (simp add: keys2)
    from Cons.IH [of self2 "np @ [s]" "group_append (topic_name (topic s)) s tg"]
    obtain self' tg' where
      r: "process_summaries fmt1 now bid S (self2, np @ [s], group_append (topic_name (topic s)) s tg) =
            Inr (self', (np @ [s]) @ accepted (map fst (existing_papers self2)) S, tg')"
      and p: "existing_papers self' =
            existing_papers self2 @ map (stamp now bid) (accepted (map fst (existing_papers self2)) S)"
      and m: "m_batches (existing_manifest self') = m_batches (existing_manifest self2)"
         "m_statistics (existing_manifest self') = m_statistics (existing_manifest self2)"
         "m_last_updated (existing_manifest self') = m_last_updated (existing_manifest self2)"
         "manifest_file self' = manifest_file self2"
         "papers_file self' = papers_file self2"
      by blast
    have "process_summaries fmt1 now bid (s # S) (self, np, tg) =
            Inr (self', np @ accepted (map fst (existing_papers self)) (s # S), tg')"
      unfolding step r acc by simp
    moreover have "existing_papers self' =
       existing_papers self @ map (stamp now bid) (accepted (map fst (existing_papers self)) (s # S))"
      unfolding p acc by (simp add: self2_def)
    moreover have "accepted (map fst (existing_papers self)) (s # S) \<noteq> []"
      unfolding acc by simp
    ultimately show ?thesis
      using m by (intro exI [of _ self'] exI [of _ tg']) (simp add: self2_def)
  qed
qed


subsection \<open>Batch bookkeeping\<close>

lemma find_batch_None:
  "find_batch bid bs = Inr None \<Longrightarrow> find (has_id bid) bs = None"
  by (induction bs) (auto simp: has_id_def split: option.splits if_splits sum.splits)

lemma find_batch_Some:
  "find_batch bid bs = Inr (Some k) \<Longrightarrow>
     k < length bs \<and> find (has_id bid) bs = Some (bs ! k) \<and> has_id bid (bs ! k) \<and>
     (\<forall>b'. has_id bid b' \<longrightarrow> find (has_id bid) (bs[k := b']) = Some b')"
proof (induction bs arbitrary: k)
  case Nil
  then show ?case by simp
next
  case (Cons b bs)
  show ?case
  proof (cases "b_id b = Some bid")
    case True
    with Cons.prems have "k = 0" by (simp split: option.splits)
    with True show ?thesis by (simp add: has_id_def)
  next
    case False
    with Cons.prems obtain j where j: "find_batch bid bs = Inr (Some j)" "k = Suc j"
      by (auto split: option.splits if_splits sum.splits)
    from Cons.IH [OF j(1)] False j(2) show ?thesis
      by (simp add: has_id_def)
  qed
qed

lemma update_batch_info_result:
  assumes "update_batch_info now bid A self = Inr self'"
  shows "existing_papers self' = existing_papers self"
    and "manifest_file self' = manifest_file self"
    and "papers_file self' = papers_file self"
    and "stdout self' = stdout self"
    and "m_papers (existing_manifest self') = m_papers (existing_manifest self)"
    and "m_last_updated (existing_manifest self') = Some (isoformat now)"
    and "\<exists>st. m_statistics (existing_manifest self') = Some st \<and>
            total_papers st = Some (int (length (existing_papers self))) \<and>
            total_batches st = Some (int (length (batches_of (existing_manifest self'))))"
    and "\<exists>pre. map b_id (batches_of (existing_manifest self')) =
            pre @ map b_id (batches_of (existing_manifest self))"
    and "\<And>b c. find (has_id bid) (batches_of (existing_manifest self)) = Some b \<Longrightarrow>
            b_paper_count b = Some c \<Longrightarrow>
            \<exists>b'. find (has_id bid) (batches_of (existing_manifest self')) = Some b' \<and>
                 b_paper_count b' = Some (c + int (length A)) \<and>
                 topics_of b' = topics_of b \<union> set (map (\<lambda>p. topic_name (topic p)) A)"
    and "find (has_id bid) (batches_of (existing_manifest self)) = None \<Longrightarrow>
            \<exists>b'. find (has_id bid) (batches_of (existing_manifest self')) = Some b' \<and>
                 b_paper_count b' = Some (int (length A)) \<and>
                 topics_of b' = set (map (\<lambda>p. topic_name (topic p)) A)"
proof -
  define bs where "bs = batches_of (existing_manifest self)"
  define T where "T = set (map (\<lambda>p. topic_name (topic p)) A)"
  from assms obtain found where f: "find_batch bid bs = Inr found"
    by (auto simp: update_batch_info_def Let_def bs_def batches_of_def split: sum.splits)
  show "existing_papers self' = existing_papers self" "manifest_file self' = manifest_file self"
    "papers_file self' = papers_file self" "stdout self' = stdout self"
    "m_papers (existing_manifest self') = m_papers (existing_manifest self)"
    "m_last_updated (existing_manifest self') = Some (isoformat now)"
    using assms
    by (auto simp: update_batch_info_def Let_def split: sum.splits option.splits)
  show "\<exists>st. m_statistics (existing_manifest self') = Some st \<and>
            total_papers st = Some (int (length (existing_papers self))) \<and>
            total_batches st = Some (int (length (batches_of (existing_manifest self'))))"
    using assms
    by (auto simp: update_batch_info_def Let_def batches_of_def split: sum.splits option.splits)
  show "\<exists>pre. map b_id (batches_of (existing_manifest self')) =
            pre @ map b_id (batches_of (existing_manifest self))"
  proof (cases found)
    case None
    with assms f have "batches_of (existing_manifest self') =
        \<lparr>b_id = Some bid, b_generated = Some (isoformat now),
          b_paper_count = Some (int (length A)), b_topics = Some T\<rparr> # bs"
      by (auto simp: update_batch_info_def Let_def batches_of_def bs_def T_def split: sum.splits option.splits)
    then show ?thesis by (simp add: bs_def)
  next
    case (Some k)
    with find_batch_Some [of bid bs k] f have k: "k < length bs" "has_id bid (bs ! k)" by simp_all
    from Some assms f obtain b' where "batches_of (existing_manifest self') = bs[k := b']" "b_id b' = b_id (bs ! k)"
      by (auto simp: update_batch_info_def Let_def batches_of_def bs_def T_def split: sum.splits option.splits)
    then have "map b_id (batches_of (existing_manifest self')) = map b_id bs"
      using k by (simp add: map_update list_update_same_conv)
    then show ?thesis by (simp add: bs_def)
  qed
  show "\<exists>b'. find (has_id bid) (batches_of (existing_manifest self')) = Some b' \<and>
                 b_paper_count b' = Some (c + int (length A)) \<and>
                 topics_of b' = topics_of b \<union> set (map (\<lambda>p. topic_name (topic p)) A)"
    if fb: "find (has_id bid) (batches_of (existing_manifest self)) = Some b" and c: "b_paper_count b = Some c"
    for b c
  proof (cases found)
    case None
    with find_batch_None [of bid bs] f fb show ?thesis by (simp add: bs_def)
  next
    case (Some k)
    with find_batch_Some [of bid bs k] f fb
    have k: "k < length bs" "bs ! k = b" "has_id bid b"
      and upd: "\<And>b'. has_id bid b' \<Longrightarrow> find (has_id bid) (bs[k := b']) = Some b'"
      by (simp_all add: bs_def)
    define b' where "b' = b\<lparr>b_paper_count := Some (c + int (length A)), b_topics := Some (topics_of b \<union> T)\<rparr>"
    have "batches_of (existing_manifest self') = bs[k := b']"
      using Some assms f k c
      by (auto simp: update_batch_info_def Let_def batches_of_def bs_def T_def b'_def topics_of_def
               split: sum.splits option.splits)
    moreover have "has_id bid b'" using k(3) by (simp add: has_id_def b'_def)
    ultimately have "find (has_id bid) (batches_of (existing_manifest self')) = Some b'"
      using upd by simp
    then show ?thesis by (intro exI [of _ b']) (simp add: b'_def topics_of_def T_def)
  qed
  show "\<exists>b'. find (has_id bid) (batches_of (existing_manifest self')) = Some b' \<and>
                 b_paper_count b' = Some (int (length A)) \<and>
                 topics_of b' = set (map (\<lambda>p. topic_name (topic p)) A)"
    if fb: "find (has_id bid) (batches_of (existing_manifest self)) = None"
  proof (cases found)
    case None
    with assms f have "batches_of (existing_manifest self') =
        \<lparr>b_id = Some bid, b_generated = Some (isoformat now),
          b_paper_count = Some (int (length A)), b_topics = Some T\<rparr> # bs"
      by (auto simp: update_batch_info_def Let_def batches_of_def bs_def T_def split: sum.splits option.splits)
    then show ?thesis by (simp add: has_id_def topics_of_def T_def)
  next
    case (Some k)
    with find_batch_Some [of bid bs k] f fb show ?thesis by (simp add: bs_def)
  qed
qed


subsection \<open>One build\<close>

lemma build_cases:
  assumes "build fmt1 cfg env S st = Inr st'"
  shows "\<exists>self1 self2 tg out.
           process_summaries fmt1 (utcnow env) (get_batch_id (utcnow env)) S
              (load_existing_data cfg st, [], []) = Inr (self1, accepted_by cfg st S, tg) \<and>
           (if accepted_by cfg st S \<noteq> []
            then update_batch_info (utcnow env) (get_batch_id (utcnow env)) (accepted_by cfg st S) self1 = Inr self2
            else self2 = self1) \<and>
           st' = save_paper_data (save_manifest cfg env (self2\<lparr>stdout := out\<rparr>))"
proof -
  define L where "L = load_existing_data cfg st"
  from process_summaries_result [of fmt1 "utcnow env" "get_batch_id (utcnow env)" S L "[]" "[]"]
  obtain self1 tg where r: "process_summaries fmt1 (utcnow env) (get_batch_id (utcnow env)) S (L, [], []) =
       Inr (self1, accepted_by cfg st S, tg)"
    by (auto simp: accepted_by_def loaded_store_def L_def)
  show ?thesis
  proof (cases "accepted_by cfg st S = []")
    case True
    with assms r show ?thesis
      unfolding L_def [symmetric]
      by (intro exI [of _ self1] exI [of _ tg]) (auto simp: build_def Let_def L_def)
  next
    case False
    with assms r obtain self2 where "update_batch_info (utcnow env) (get_batch_id (utcnow env)) (accepted_by cfg st S) self1 = Inr self2"
      by (auto simp: build_def Let_def L_def split: sum.splits)
    with assms r False show ?thesis
      unfolding L_def [symmetric]
      by (intro exI [of _ self1] exI [of _ self2] exI [of _ tg]) (auto simp: build_def Let_def L_def)
  qed
qed

lemma build_store:
  assumes "build fmt1 cfg env S st = Inr st'"
  shows "papers_file st' = Parsed \<lparr>doc_version = Some ''1.0'', doc_papers = Some
           (loaded_store cfg st @ map (stamp (utcnow env) (get_batch_id (utcnow env))) (accepted_by cfg st S))\<rparr>"
proof -
  from build_cases [OF assms] obtain self1 self2 tg out where
    r: "process_summaries fmt1 (utcnow env) (get_batch_id (utcnow env)) S
              (load_existing_data cfg st, [], []) = Inr (self1, accepted_by cfg st S, tg)"
    and u: "if accepted_by cfg st S \<noteq> []
            then update_batch_info (utcnow env) (get_batch_id (utcnow env)) (accepted_by cfg st S) self1 = Inr self2
            else self2 = self1"
    and s: "st' = save_paper_data (save_manifest cfg env (self2\<lparr>stdout := out\<rparr>))"
    by blast
  from process_summaries_result [of fmt1 "utcnow env" "get_batch_id (utcnow env)" S "load_existing_data cfg st" "[]" "[]"] r
  have p1: "existing_papers self1 = loaded_store cfg st @
      map (stamp (utcnow env) (get_batch_id (utcnow env))) (accepted_by cfg st S)"
    by (auto simp: accepted_by_def loaded_store_def)
  have "existing_papers self2 = existing_papers self1"
    using u update_batch_info_result(1) by (auto split: if_splits)
  with p1 s show ?thesis
    by (simp add: save_paper_data_def save_manifest_def Let_def)
qed

lemma build_manifest:
  assumes "build fmt1 cfg env S st = Inr st'"
  shows "\<exists>m'. manifest_file st' = Parsed m' \<and>
      (accepted_by cfg st S = [] \<longrightarrow>
         m_statistics m' = m_statistics (loaded_manifest cfg st) \<and>
         m_last_updated m' = m_last_updated (loaded_manifest cfg st) \<and>
         m_batches m' = m_batches (loaded_manifest cfg st) \<and>
         m_papers m' = m_papers (loaded_manifest cfg st)) \<and>
      (accepted_by cfg st S \<noteq> [] \<longrightarrow>
         m_last_updated m' = Some (isoformat (utcnow env)) \<and>
         (\<exists>stats. m_statistics m' = Some stats \<and>
            total_papers stats = Some (int (length (loaded_store cfg st) + length (accepted_by cfg st S))) \<and>
            total_batches stats = Some (int (length (batches_of m'))))) \<and>
      (\<exists>pre. map b_id (batches_of m') = pre @ map b_id (batches_of (loaded_manifest cfg st))) \<and>
      (\<forall>b c. find (has_id (get_batch_id (utcnow env))) (batches_of (loaded_manifest cfg st)) = Some b \<and>
             b_paper_count b = Some c \<longrightarrow>
             (\<exists>b'. find (has_id (get_batch_id (utcnow env))) (batches_of m') = Some b' \<and>
                 b_paper_count b' = Some (c + int (length (accepted_by cfg st S))) \<and>
                 topics_of b' = topics_of b \<union> set (map (\<lambda>p. topic_name (topic p)) (accepted_by cfg st S)))) \<and>
      (find (has_id (get_batch_id (utcnow env))) (batches_of (loaded_manifest cfg st)) = None \<and>
         accepted_by cfg st S \<noteq> [] \<longrightarrow>
             (\<exists>b'. find (has_id (get_batch_id (utcnow env))) (batches_of m') = Some b' \<and>
                 b_paper_count b' = Some (int (length (accepted_by cfg st S))) \<and>
                 topics_of b' = set (map (\<lambda>p. topic_name (topic p)) (accepted_by cfg st S))))"
proof -
  define now where "now = utcnow env"
  define bid where "bid = get_batch_id now"
  define A where "A = accepted_by cfg st S"
  define L where "L = load_existing_data cfg st"
  from build_cases [OF assms] obtain self1 self2 tg out where
    r: "process_summaries fmt1 now bid S (L, [], []) = Inr (self1, A, tg)"
    and u: "if A \<noteq> [] then update_batch_info now bid A self1 = Inr self2 else self2 = self1"
    and s: "st' = save_paper_data (save_manifest cfg env (self2\<lparr>stdout := out\<rparr>))"
    unfolding now_def bid_def A_def L_def by blast
  from process_summaries_result [of fmt1 now bid S L "[]" "[]"] r
  have p: "existing_papers self1 = existing_papers L @ map (stamp now bid) A"
    "m_batches (existing_manifest self1) = m_batches (existing_manifest L)"
    "m_statistics (existing_manifest self1) = m_statistics (existing_manifest L)"
    "m_last_updated (existing_manifest self1) = m_last_updated (existing_manifest L)"
    "A = [] \<longrightarrow> existing_manifest self1 = existing_manifest L"
    by (auto simp: A_def accepted_by_def loaded_store_def L_def)
  have bo: "batches_of (existing_manifest self1) = batches_of (existing_manifest L)"
    using p(2) by (simp add: batches_of_def)
  define m' where "m' = (existing_manifest self2)\<lparr>m_base_url := Some (base_url cfg),
       m_generated := Some (case PIPELINE_RUN_AT env of None \<Rightarrow> isoformat (utcnow env)
                       | Some v \<Rightarrow> if v = [] then isoformat (utcnow env) else v),
       m_topics := Some (topics_mapping (case m_papers (existing_manifest self2) of None \<Rightarrow> [] | Some ix \<Rightarrow> ix) [])\<rparr>"
  have mf: "manifest_file st' = Parsed m'"
    using s by (simp add: save_paper_data_def save_manifest_def Let_def m'_def)
  have sel: "m_statistics m' = m_statistics (existing_manifest self2)"
    "m_last_updated m' = m_last_updated (existing_manifest self2)"
    "m_batches m' = m_batches (existing_manifest self2)"
    "m_papers m' = m_papers (existing_manifest self2)"
    "batches_of m' = batches_of (existing_manifest self2)"
    by (simp_all add: m'_def batches_of_def)
  show ?thesis
  proof (cases "A = []")
    case True
    with u p have "existing_manifest self2 = existing_manifest L" by simp
    with True mf sel show ?thesis
      unfolding A_def [symmetric] now_def [symmetric] bid_def [symmetric]
      by (intro exI [of _ m']) (auto simp: loaded_manifest_def L_def)
  next
    case False
    with u have ub: "update_batch_info now bid A self1 = Inr self2" by simp
    note R = update_batch_info_result [OF ub]
    have len: "length (existing_papers self1) = length (loaded_store cfg st) + length A"
      using p(1) by (simp add: loaded_store_def L_def)
    show ?thesis
      unfolding A_def [symmetric] now_def [symmetric] bid_def [symmetric]
      using False mf sel R(6) R(7) R(8) R(9) R(10) len bo
      by (intro exI [of _ m']) (simp add: loaded_manifest_def L_def [symmetric])
  qed
qed

subsection \<open>Score\<close>



subsection \<open>Accepted summaries\<close>

lemma map_fst_stamp: "map fst (map (stamp now bid) A) = map (\<lambda>s. arxiv_id (paper s)) A"
  by (simp add: stamp_def)

lemma accepted_append:
  "accepted K (S1 @ S2) =
     accepted K S1 @ accepted (K @ map (\<lambda>s. arxiv_id (paper s)) (accepted K S1)) S2"
  by (induction S1 arbitrary: K) auto

lemma accepted_filter_known:
  "i \<in> set K \<Longrightarrow> accepted K (filter (\<lambda>t. arxiv_id (paper t) \<noteq> i) S) = accepted K S"
  by (induction S arbitrary: K) auto

lemma accepted_dedup_ids: "accepted K (dedup_ids S) = accepted K S"
proof (induction S arbitrary: K rule: dedup_ids.induct)
  case 1
  then show ?case by simp
next
  case (2 s rest)
  show ?case
  proof (cases "arxiv_id (paper s) \<in> set K")
    case True
    then show ?thesis using "2.IH" [of K] by (simp add: accepted_filter_known)
  next
    case False
    then show ?thesis
      using "2.IH" [of "K @ [arxiv_id (paper s)]"] by (simp add: accepted_filter_known)
  qed
qed

lemma accepted_known: "(\<forall>s\<in>set S. arxiv_id (paper s) \<in> set K) \<Longrightarrow> accepted K S = []"
  by (induction S) auto

lemma accepted_distinct:
  "distinct K \<Longrightarrow> distinct (K @ map (\<lambda>s. arxiv_id (paper s)) (accepted K S))"
proof (induction S arbitrary: K)
  case Nil
  then show ?case by simp
next
  case (Cons s S)
  show ?case
  proof (cases "arxiv_id (paper s) \<in> set K")
    case True
    then show ?thesis using Cons.IH [OF Cons.prems] by simp
  next
    case False
    with Cons.prems have "distinct (K @ [arxiv_id (paper s)])" by simp
    from Cons.IH [OF this] False show ?thesis by simp
  qed
qed

lemma accepted_covers:
  "set (map (\<lambda>s. arxiv_id (paper s)) S) \<subseteq> set (K @ map (\<lambda>s. arxiv_id (paper s)) (accepted K S))"
proof (induction S arbitrary: K)
  case Nil
  then show ?case by simp
next
  case (Cons s S)
  show ?case
  proof (cases "arxiv_id (paper s) \<in> set K")
    case True
    then show ?thesis using Cons.IH [of K] by auto
  next
    case False
    then show ?thesis using Cons.IH [of "K @ [arxiv_id (paper s)]"] by auto
  qed
qed

lemma build_loaded_store:
  assumes "build fmt1 cfg env S st = Inr st'"
  shows "loaded_store cfg' st' =
           loaded_store cfg st @ map (stamp (utcnow env) (get_batch_id (utcnow env))) (accepted_by cfg st S)"
  using build_store [OF assms] by (simp add: loaded_store_def load_existing_data_def)

lemma build_keys:
  assumes "build fmt1 cfg env S st = Inr st'"
  shows "map fst (loaded_store cfg' st') =
           map fst (loaded_store cfg st) @
           map (\<lambda>s. arxiv_id (paper s)) (accepted (map fst (loaded_store cfg st)) S)"
  unfolding build_loaded_store [OF assms] by (simp add: stamp_def accepted_by_def)

lemma build_loaded_manifest:
  assumes "build fmt1 cfg env S st = Inr st'"
  shows "manifest_file st' = Parsed (loaded_manifest cfg' st')"
  using build_manifest [OF assms] by (auto simp: loaded_manifest_def load_existing_data_def)

subsection \<open>Re-ingestion\<close>

text \<open>
  C1. Re-ingestion is idempotent. Let a build of \<open>S1\<close> be followed by a build of \<open>S2\<close>, and
  compare with one build of the deduplicated \<open>S1 @ S2\<close> from the same directory. The two
  stores have the same keys in the same order, hence the same size; keys that were
  distinct stay distinct, so no identifier has two entries; at equal clock readings the
  store files are equal. Every identifier of \<open>S1\<close> is a key after the first build, and a
  build whose summaries are all stored already leaves the store file and the manifest's
  paper index as they were, without an error.
\<close>

theorem reingestion_idempotent:
  assumes b1: "build fmt1 cfg env1 S1 st0 = Inr st1"
      and b2: "build fmt1 cfg env2 S2 st1 = Inr st2"
      and b: "build fmt1 cfg env (dedup_ids (S1 @ S2)) st0 = Inr st"
  shows "map fst (loaded_store cfg st2) = map fst (loaded_store cfg st) \<and>
         length (loaded_store cfg st2) = length (loaded_store cfg st) \<and>
         (distinct (map fst (loaded_store cfg st0)) \<longrightarrow> distinct (map fst (loaded_store cfg st2))) \<and>
         (utcnow env1 = utcnow env \<and> utcnow env2 = utcnow env \<longrightarrow> papers_file st2 = papers_file st) \<and>
         (\<forall>s\<in>set S1. arxiv_id (paper s) \<in> set (map fst (loaded_store cfg st1))) \<and>
         ((\<forall>s\<in>set S2. arxiv_id (paper s) \<in> set (map fst (loaded_store cfg st1))) \<longrightarrow>
            papers_file st2 = papers_file st1 \<and>
            m_papers (loaded_manifest cfg st2) = m_papers (loaded_manifest cfg st1))"
proof -
  define K0 where "K0 = map fst (loaded_store cfg st0)"
  define ids :: "PaperSummary list \<Rightarrow> string list" where "ids = map (\<lambda>s. arxiv_id (paper s))"
  define A1 where "A1 = accepted K0 S1"
  define K1 where "K1 = K0 @ ids A1"
  define A2 where "A2 = accepted K1 S2"
  have k1: "map fst (loaded_store cfg st1) = K1"
    using build_keys [OF b1, of cfg] by (simp add: K1_def A1_def K0_def ids_def)
  have k2: "map fst (loaded_store cfg st2) = K1 @ ids A2"
    using build_keys [OF b2, of cfg] by (simp add: k1 A2_def ids_def)
  have acc: "accepted K0 (dedup_ids (S1 @ S2)) = A1 @ A2"
    by (simp add: accepted_dedup_ids accepted_append A1_def A2_def K1_def ids_def)
  have k: "map fst (loaded_store cfg st) = K0 @ ids (A1 @ A2)"
    using build_keys [OF b, of cfg] unfolding K0_def [symmetric] acc by (simp add: ids_def)
  have keys: "map fst (loaded_store cfg st2) = map fst (loaded_store cfg st)"
    by (simp add: k2 k K1_def ids_def)
  then have len: "length (loaded_store cfg st2) = length (loaded_store cfg st)"
    by (metis length_map)
  have dist: "distinct (map fst (loaded_store cfg st2))" if "distinct (map fst (loaded_store cfg st0))"
  proof -
    from that have "distinct (K0 @ ids (accepted K0 (dedup_ids (S1 @ S2))))"
      unfolding ids_def K0_def by (rule accepted_distinct)
    then show ?thesis by (simp add: keys k acc)
  qed
  have same: "papers_file st2 = papers_file st" if "utcnow env1 = utcnow env" "utcnow env2 = utcnow env"
  proof -
    have "loaded_store cfg st1 = loaded_store cfg st0 @
        map (stamp (utcnow env) (get_batch_id (utcnow env))) A1"
      using build_loaded_store [OF b1, of cfg] that by (simp add: accepted_by_def A1_def K0_def)
    moreover have "accepted_by cfg st1 S2 = A2"
      by (simp add: accepted_by_def k1 A2_def)
    ultimately have "loaded_store cfg st2 = loaded_store cfg st0 @
        map (stamp (utcnow env) (get_batch_id (utcnow env))) (A1 @ A2)"
      using build_loaded_store [OF b2, of cfg] that by simp
    moreover have "accepted_by cfg st0 (dedup_ids (S1 @ S2)) = A1 @ A2"
      using acc by (simp add: accepted_by_def K0_def)
    ultimately show ?thesis
      using build_store [OF b2] build_store [OF b] build_loaded_store [OF b2, of cfg] by simp
  qed
  have cover: "\<forall>s\<in>set S1. arxiv_id (paper s) \<in> set (map fst (loaded_store cfg st1))"
    using accepted_covers [of S1 K0] by (auto simp: k1 K1_def A1_def ids_def)
  have skip: "papers_file st2 = papers_file st1 \<and>
            m_papers (loaded_manifest cfg st2) = m_papers (loaded_manifest cfg st1)"
    if "\<forall>s\<in>set S2. arxiv_id (paper s) \<in> set (map fst (loaded_store cfg st1))"
  proof -
    from that have a2: "accepted_by cfg st1 S2 = []"
      by (simp add: accepted_by_def accepted_known)
    have "papers_file st2 = Parsed \<lparr>doc_version = Some ''1.0'', doc_papers = Some (loaded_store cfg st1)\<rparr>"
      using build_store [OF b2] a2 by simp
    moreover have "papers_file st1 = Parsed \<lparr>doc_version = Some ''1.0'', doc_papers = Some (loaded_store cfg st1)\<rparr>"
      using build_store [OF b1] build_loaded_store [OF b1, of cfg] by simp
    moreover have "m_papers (loaded_manifest cfg st2) = m_papers (loaded_manifest cfg st1)"
      using build_manifest [OF b2] a2 build_loaded_manifest [OF b2, of cfg] by auto
    ultimately show ?thesis by simp
  qed
  from keys len dist same cover skip show ?thesis by blast
qed


theorem reingestion_idempotent_witness:
  "build fmt_1f example_cfg example_env first_run empty_site = Inr site_after_first \<and>
   build fmt_1f example_cfg example_env_later second_run site_after_first = Inr site_after_second \<and>
   build fmt_1f example_cfg example_env (dedup_ids (first_run @ second_run)) empty_site = Inr site_after_both \<and>
   map fst (loaded_store example_cfg site_after_second) = [''2401.00001'', ''2401.00002'', ''2401.00003''] \<and>
   distinct (map fst (loaded_store example_cfg site_after_second))"
proof -
  have b1: "build fmt_1f example_cfg example_env first_run empty_site = Inr site_after_first"
    by code_simp
  have b2: "build fmt_1f example_cfg example_env_later second_run site_after_first = Inr site_after_second"
    by code_simp
  have b: "build fmt_1f example_cfg example_env (dedup_ids (first_run @ second_run)) empty_site = Inr site_after_both"
    by code_simp
  have once: "map fst (loaded_store example_cfg site_after_both) = [''2401.00001'', ''2401.00002'', ''2401.00003'']"
    by code_simp
  have d0: "distinct (map fst (loaded_store example_cfg empty_site))"
    by code_simp
  from reingestion_idempotent [OF b1 b2 b] once d0 b1 b2 b show ?thesis by simp
qed

subsection \<open>Success of a build\<close>




subsection \<open>Statistics\<close>

text \<open>
  C2. After a build that returns, the statistics of the persisted manifest agree
  with the size of the persisted store and the length of the batch list, provided that
  the build accepted at least one summary or that the loaded manifest and store agreed
  already. The statistics are recomputed only inside \<^verbatim>\<open>if new_papers:\<close>.
\<close>

theorem statistics_invariant:
  assumes "build fmt1 cfg env S st = Inr st'"
      and "accepted_by cfg st S \<noteq> [] \<or> stats_consistent (loaded_manifest cfg st) (loaded_store cfg st)"
  shows "stats_consistent (loaded_manifest cfg st') (loaded_store cfg st')"
proof -
  from build_manifest [OF assms(1)] build_loaded_manifest [OF assms(1), of cfg]
  have new: "accepted_by cfg st S \<noteq> [] \<Longrightarrow>
       \<exists>stats. m_statistics (loaded_manifest cfg st') = Some stats \<and>
          total_papers stats = Some (int (length (loaded_store cfg st) + length (accepted_by cfg st S))) \<and>
          total_batches stats = Some (int (length (batches_of (loaded_manifest cfg st'))))"
    and old: "accepted_by cfg st S = [] \<Longrightarrow>
       m_statistics (loaded_manifest cfg st') = m_statistics (loaded_manifest cfg st) \<and>
       m_batches (loaded_manifest cfg st') = m_batches (loaded_manifest cfg st)"
    by auto
  note store = build_loaded_store [OF assms(1), of cfg]
  show ?thesis
  proof (cases "accepted_by cfg st S = []")
    case True
    from old [OF True] have "batches_of (loaded_manifest cfg st') = batches_of (loaded_manifest cfg st)"
      by (simp add: batches_of_def)
    with True assms(2) old store show ?thesis
      by (auto simp: stats_consistent_def split: option.splits)
  next
    case False
    from new [OF False] store show ?thesis
      by (auto simp: stats_consistent_def)
  qed
qed

theorem statistics_invariant_witness:
  "build fmt_1f example_cfg example_env_later second_run site_after_first = Inr site_after_second \<and>
   accepted_by example_cfg site_after_first second_run \<noteq> [] \<and>
   stats_consistent (loaded_manifest example_cfg site_after_second)
     (loaded_store example_cfg site_after_second) \<and>
   m_statistics (loaded_manifest example_cfg site_after_second) =
     Some \<lparr>total_papers = Some 3, total_batches = Some 1\<rparr>"
proof -
  have b2: "build fmt_1f example_cfg example_env_later second_run site_after_first = Inr site_after_second"
    by code_simp
  have a: "accepted_by example_cfg site_after_first second_run \<noteq> []"
    by code_simp
  have v: "m_statistics (loaded_manifest example_cfg site_after_second) =
     Some \<lparr>total_papers = Some 3, total_batches = Some 1\<rparr>"
    by code_simp
  from statistics_invariant [OF b2] a v b2 show ?thesis by simp
qed

text \<open>
  Without the proviso the statistics can disagree with the store: the manifest file is
  absent, the store holds one paper, and nothing is submitted.
\<close>

theorem statistics_invariant_counterexample:
  "build fmt_1f example_cfg example_env [] orphan_store =
     Inr (projr (build fmt_1f example_cfg example_env [] orphan_store)) \<and>
   m_statistics (loaded_manifest example_cfg (projr (build fmt_1f example_cfg example_env [] orphan_store))) =
     Some \<lparr>total_papers = Some 0, total_batches = Some 0\<rparr> \<and>
   length (loaded_store example_cfg (projr (build fmt_1f example_cfg example_env [] orphan_store))) = 1 \<and>
   \<not> stats_consistent
        (loaded_manifest example_cfg (projr (build fmt_1f example_cfg example_env [] orphan_store)))
        (loaded_store example_cfg (projr (build fmt_1f example_cfg example_env [] orphan_store)))"
  by code_simp

text \<open>
  C3. A build that accepts at least one summary recomputes the statistics (total
  papers is the size of the store, total batches the length of the batch list) and sets
  the last-updated timestamp to the current time before the manifest is persisted. A
  build that accepts none persists the statistics and the last-updated timestamp that it
  loaded.
\<close>

theorem statistics_refresh:
  assumes "build fmt1 cfg env S st = Inr st'"
  shows "(accepted_by cfg st S \<noteq> [] \<longrightarrow>
            m_last_updated (loaded_manifest cfg st') = Some (isoformat (utcnow env)) \<and>
            (\<exists>stats. m_statistics (loaded_manifest cfg st') = Some stats \<and>
               total_papers stats = Some (int (length (loaded_store cfg st'))) \<and>
               total_batches stats = Some (int (length (batches_of (loaded_manifest cfg st')))))) \<and>
         (accepted_by cfg st S = [] \<longrightarrow>
            m_last_updated (loaded_manifest cfg st') = m_last_updated (loaded_manifest cfg st) \<and>
            m_statistics (loaded_manifest cfg st') = m_statistics (loaded_manifest cfg st))"
  using build_manifest [OF assms] build_loaded_manifest [OF assms, of cfg]
    build_loaded_store [OF assms, of cfg]
  by auto

theorem statistics_refresh_witness:
  "build fmt_1f example_cfg example_env first_run empty_site = Inr site_after_first \<and>
   accepted_by example_cfg empty_site first_run \<noteq> [] \<and>
   m_last_updated (loaded_manifest example_cfg site_after_first) = Some ''2024-09-10T08:00:00'' \<and>
   build fmt_1f example_cfg example_env_later first_run site_after_first =
     Inr (projr (build fmt_1f example_cfg example_env_later first_run site_after_first)) \<and>
   accepted_by example_cfg site_after_first first_run = [] \<and>
   m_last_updated (loaded_manifest example_cfg
      (projr (build fmt_1f example_cfg example_env_later first_run site_after_first))) =
     Some ''2024-09-10T08:00:00''"
proof -
  have b1: "build fmt_1f example_cfg example_env first_run empty_site = Inr site_after_first"
    by code_simp
  have a1: "accepted_by example_cfg empty_site first_run \<noteq> []"
    by code_simp
  have b2: "build fmt_1f example_cfg example_env_later first_run site_after_first =
     Inr (projr (build fmt_1f example_cfg example_env_later first_run site_after_first))"
    by code_simp
  have a2: "accepted_by example_cfg site_after_first first_run = []"
    by code_simp
  have t: "isoformat (utcnow example_env) = ''2024-09-10T08:00:00''"
    by code_simp
  from statistics_refresh [OF b1] statistics_refresh [OF b2] a1 a2 b1 b2 t show ?thesis by simp
qed

text \<open>
  A build whose only summary is stored already, beside a manifest that does not parse:
  the persisted manifest has no last-updated timestamp and counts no paper.
\<close>

theorem statistics_refresh_counterexample:
  "build fmt_1f example_cfg example_env [example_summary ''2401.00001'' ''nlp''] corrupt_manifest =
     Inr (projr (build fmt_1f example_cfg example_env [example_summary ''2401.00001'' ''nlp''] corrupt_manifest)) \<and>
   m_last_updated (loaded_manifest example_cfg
      (projr (build fmt_1f example_cfg example_env [example_summary ''2401.00001'' ''nlp''] corrupt_manifest))) = None \<and>
   isoformat (utcnow example_env) = ''2024-09-10T08:00:00'' \<and>
   m_statistics (loaded_manifest example_cfg
      (projr (build fmt_1f example_cfg example_env [example_summary ''2401.00001'' ''nlp''] corrupt_manifest))) =
     Some \<lparr>total_papers = Some 0, total_batches = Some 0\<rparr> \<and>
   length (loaded_store example_cfg
      (projr (build fmt_1f example_cfg example_env [example_summary ''2401.00001'' ''nlp''] corrupt_manifest))) = 1"
  by code_simp

subsection \<open>Batches\<close>

text \<open>
  C5. Batch monotonicity. A build that returns, from any prior state of the directory
  (in particular the one left by an earlier build of the same ISO week), removes no batch
  entry: the batch ids of the loaded manifest are a suffix of those persisted. If the loaded
  manifest has an entry for the computed batch id with a paper count \<open>c\<close>, the persisted
  entry for that id has the count \<open>c\<close> plus the number of accepted summaries, which is not
  less than \<open>c\<close>, and its topics are the old topics united with the topics of the accepted
  summaries.
\<close>

theorem batch_monotone:
  assumes "build fmt1 cfg env S st = Inr st'"
  shows "(\<exists>pre. map b_id (batches_of (loaded_manifest cfg st')) =
                 pre @ map b_id (batches_of (loaded_manifest cfg st))) \<and>
         (\<forall>b c. find (has_id (get_batch_id (utcnow env))) (batches_of (loaded_manifest cfg st)) = Some b \<and>
                b_paper_count b = Some c \<longrightarrow>
            (\<exists>b'. find (has_id (get_batch_id (utcnow env))) (batches_of (loaded_manifest cfg st')) = Some b' \<and>
                 b_paper_count b' = Some (c + int (length (accepted_by cfg st S))) \<and>
                 c \<le> c + int (length (accepted_by cfg st S)) \<and>
                 topics_of b' = topics_of b \<union> set (map (\<lambda>p. topic_name (topic p)) (accepted_by cfg st S)) \<and>
                 topics_of b \<subseteq> topics_of b'))"
proof -
  from build_manifest [OF assms] build_loaded_manifest [OF assms, of cfg]
  have pre: "\<exists>pre. map b_id (batches_of (loaded_manifest cfg st')) =
                 pre @ map b_id (batches_of (loaded_manifest cfg st))"
    and upd: "\<forall>b c. find (has_id (get_batch_id (utcnow env))) (batches_of (loaded_manifest cfg st)) = Some b \<and>
             b_paper_count b = Some c \<longrightarrow>
             (\<exists>b'. find (has_id (get_batch_id (utcnow env))) (batches_of (loaded_manifest cfg st')) = Some b' \<and>
                 b_paper_count b' = Some (c + int (length (accepted_by cfg st S))) \<and>
                 topics_of b' = topics_of b \<union> set (map (\<lambda>p. topic_name (topic p)) (accepted_by cfg st S)))"
    by auto
  from upd have "\<forall>b c. find (has_id (get_batch_id (utcnow env))) (batches_of (loaded_manifest cfg st)) = Some b \<and>
                b_paper_count b = Some c \<longrightarrow>
            (\<exists>b'. find (has_id (get_batch_id (utcnow env))) (batches_of (loaded_manifest cfg st')) = Some b' \<and>
                 b_paper_count b' = Some (c + int (length (accepted_by cfg st S))) \<and>
                 c \<le> c + int (length (accepted_by cfg st S)) \<and>
                 topics_of b' = topics_of b \<union> set (map (\<lambda>p. topic_name (topic p)) (accepted_by cfg st S)) \<and>
                 topics_of b \<subseteq> topics_of b')"
    by fastforce
  with pre show ?thesis by blast
qed


theorem batch_monotone_witness:
  "build fmt_1f example_cfg example_env_later second_run site_after_first = Inr site_after_second \<and>
   get_batch_id (utcnow example_env_later) = ''2024-W37'' \<and>
   map_option b_paper_count
     (find (has_id ''2024-W37'') (batches_of (loaded_manifest example_cfg site_after_first))) = Some (Some 2) \<and>
   map_option b_paper_count
     (find (has_id ''2024-W37'') (batches_of (loaded_manifest example_cfg site_after_second))) = Some (Some 3) \<and>
   map_option topics_of
     (find (has_id ''2024-W37'') (batches_of (loaded_manifest example_cfg site_after_second))) =
     Some {''nlp'', ''cv''}"
proof -
  define b1 where "b1 = \<lparr>b_id = Some ''2024-W37'', b_generated = Some ''2024-09-10T08:00:00'',
                          b_paper_count = Some 2, b_topics = Some {''nlp''}\<rparr>"
  have b2: "build fmt_1f example_cfg example_env_later second_run site_after_first = Inr site_after_second"
    by code_simp
  have bid: "get_batch_id (utcnow example_env_later) = ''2024-W37''"
    by code_simp
  have f1: "find (has_id ''2024-W37'') (batches_of (loaded_manifest example_cfg site_after_first)) = Some b1"
    unfolding b1_def by code_simp
  have c1: "b_paper_count b1 = Some 2" and t1: "topics_of b1 = {''nlp''}"
    by (simp_all add: b1_def topics_of_def)
  have a: "accepted_by example_cfg site_after_first second_run = [example_summary ''2401.00003'' ''cv'']"
    by code_simp
  from batch_monotone [OF b2] f1 c1
  obtain b' where "find (has_id ''2024-W37'') (batches_of (loaded_manifest example_cfg site_after_second)) = Some b'"
    and "b_paper_count b' = Some (2 + int (length (accepted_by example_cfg site_after_first second_run)))"
    and "topics_of b' = topics_of b1 \<union>
           set (map (\<lambda>p. topic_name (topic p)) (accepted_by example_cfg site_after_first second_run))"
    unfolding bid by blast
  then show ?thesis
    using b2 bid f1 c1 t1 by (auto simp: a example_summary_def)
qed

subsection \<open>Loading\<close>




subsection \<open>The markdown table\<close>

lemma commit_papers_unchanged:
  assumes "build_markdown_table timestamp papers
             (case file_on_branch repo of None \<Rightarrow> [] | Some c \<Rightarrow> c) =
           (case file_on_branch repo of None \<Rightarrow> [] | Some c \<Rightarrow> c)"
      and "reachable repo"
  shows "commit_papers timestamp papers repo = Inr (True, repo)"
  using assms by (simp add: commit_papers_def Let_def)

text \<open>
  C10. The table built for the demo paper from an empty file, given back as the existing
  content with the same paper, does not stay as it is: the title read back from the row
  is \<open>[Demo\<close>, the text before the first closing bracket, so the paper counts as new and
  its row is added a second time; \<^verbatim>\<open>commit_papers\<close> then writes the file.
\<close>

theorem markdown_table_duplicate_row:
  "build_markdown_table ''2024-09-10 08:00 UTC'' [demo_paper] [] = demo_table \<and>
   existing_titles demo_table = {''[Demo''} \<and>
   build_markdown_table ''2024-09-12 17:30 UTC'' [demo_paper] demo_table =
     join [CHR 0x0A]
       [''# Paper Updates'', [], ''*Last updated: 2024-09-10 08:00 UTC*'', [],
        ''| Title | Published Date | Venue/Conference |'', ''| --- | --- | --- |'',
        demo_row, demo_row] \<and>
   build_markdown_table ''2024-09-12 17:30 UTC'' [demo_paper] demo_table \<noteq> demo_table \<and>
   commit_papers ''2024-09-12 17:30 UTC'' [demo_paper] demo_repo =
     Inr (True, demo_repo\<lparr>file_on_branch :=
                 Some (build_markdown_table ''2024-09-12 17:30 UTC'' [demo_paper] demo_table)\<rparr>)"
  by code_simp

subsection \<open>Escaping\<close>

lemma markup_of_Nil: "markup_of [] = []"
  by (simp add: markup_of_def)

lemma markup_of_Cons: "markup_of (c # cs) = (if is_markup c then c # markup_of cs else markup_of cs)"
  by (simp add: markup_of_def)

lemma markup_of_append: "markup_of (a @ b) = markup_of a @ markup_of b"
  by (simp add: markup_of_def)

lemma markup_of_concat: "markup_of (concat xs) = concat (map markup_of xs)"
  by (induction xs) (simp_all add: markup_of_Nil markup_of_append)


































end
